theory Spec2Isabelle
  imports Main
begin

section \<open>The NGPVAN codes client (parsons/ngpvan/codes.py)\<close>

text \<open>
  The class \<open>Codes\<close> holds one field, the VAN connection, and offers seven methods.
  Each method computes a URL and a parameter dictionary, hands them to the connection in
  one call and returns what the connection answers. The model below follows the Python
  line by line. Log output (\<open>logger.info\<close>, \<open>logger.debug\<close>) does not reach the
  result and is left out, except where the formatted message reads an attribute of the
  answer, which can raise.
\<close>

subsection \<open>Python values\<close>

text \<open>
  The arguments are dynamically typed. A dictionary is an association list in insertion
  order, with string keys; a well-formed dictionary has distinct keys.
\<close>

datatype pyval =
    PNone
  | PBool bool
  | PInt int
  | PStr string
  | PList "pyval list"
  | PDict "(string \<times> pyval) list"

text \<open>The errors a call can end in: Python's own, and those of the connection.\<close>

datatype error =
    UnboundLocalError string
  | KeyError string
  | TypeError
  | AttributeError string
  | JSONDecodeError
  | HTTPError nat
  | NetworkError

text \<open>Truth value of an object, as \<open>if x:\<close> tests it.\<close>

fun truthy :: "pyval \<Rightarrow> bool" where
  "truthy PNone = False"
| "truthy (PBool b) = b"
| "truthy (PInt i) = (i \<noteq> 0)"
| "truthy (PStr s) = (s \<noteq> [])"
| "truthy (PList xs) = (xs \<noteq> [])"
| "truthy (PDict d) = (d \<noteq> [])"

text \<open>
  A keyword argument is \<open>None\<close> when the caller leaves it out and \<open>Some v\<close> when the
  caller passes \<open>v\<close>; \<open>arg_or d\<close> binds the parameter, with the default \<open>d\<close> of the
  signature.
\<close>

fun arg_or :: "pyval \<Rightarrow> pyval option \<Rightarrow> pyval" where
  "arg_or d None = d"
| "arg_or d (Some v) = v"

text \<open>Sequencing of steps that can raise: the first error ends the computation.\<close>

fun bind_err :: "error + 'a \<Rightarrow> ('a \<Rightarrow> error + 'b) \<Rightarrow> error + 'b" where
  "bind_err (Inl e) f = Inl e"
| "bind_err (Inr x) f = f x"

text \<open>A list comprehension whose element expression can raise stops at the first error.\<close>

fun map_err :: "('a \<Rightarrow> error + 'b) \<Rightarrow> 'a list \<Rightarrow> error + 'b list" where
  "map_err f [] = Inr []"
| "map_err f (x # xs) = bind_err (f x) (\<lambda>y. bind_err (map_err f xs) (\<lambda>ys. Inr (y # ys)))"

text \<open>\<open>s[k]\<close> for a string key \<open>k\<close>: only a dictionary can be indexed by a string.\<close>

fun subscript :: "pyval \<Rightarrow> string \<Rightarrow> error + pyval" where
  "subscript (PDict d) k = (case map_of d k of None \<Rightarrow> Inl (KeyError k) | Some v \<Rightarrow> Inr v)"
| "subscript _ k = Inl TypeError"

text \<open>
  \<open>for s in x\<close>: a list yields its elements, a dictionary its keys, a string its
  characters; nothing else can be iterated.
\<close>

fun py_iter :: "pyval \<Rightarrow> error + pyval list" where
  "py_iter (PList xs) = Inr xs"
| "py_iter (PDict d) = Inr (map (\<lambda>kv. PStr (fst kv)) d)"
| "py_iter (PStr s) = Inr (map (\<lambda>c. PStr [c]) s)"
| "py_iter _ = Inl TypeError"

text \<open>\<open>d[k] = v\<close> on a dictionary: replaces the value of an existing key, else appends.\<close>

fun dict_set :: "(string \<times> pyval) list \<Rightarrow> string \<Rightarrow> pyval \<Rightarrow> (string \<times> pyval) list" where
  "dict_set [] k v = [(k, v)]"
| "dict_set ((k', v') # d) k v = (if k' = k then (k, v) # d else (k', v') # dict_set d k v)"

text \<open>\<open>'{}'.format(n)\<close> for an integer \<open>n\<close>: its decimal digits.\<close>

fun str_nat :: "nat \<Rightarrow> string" where
  "str_nat n = (if n < 10 then [''0123456789'' ! n]
                else str_nat (n div 10) @ [''0123456789'' ! (n mod 10)])"

definition str_int :: "int \<Rightarrow> string" where
  "str_int i = (if i < 0 then ''-'' @ str_nat (nat (- i)) else str_nat (nat i))"

subsection \<open>Tables\<close>

record table =
  header :: "string list"
  rows :: "pyval list list"

text \<open>
  Modelled from the spec: \<open>petl.fromcolumns\<close> and the \<open>Table\<close> class of
  \<open>parsons.etl.table\<close> are not part of the source file. The spec says the metadata
  methods wrap the JSON array as a single-column table, one row per array element, under
  a fixed header. \<open>fromcolumns\<close> lays the given columns side by side, a shorter column
  filled with \<open>None\<close>; the \<open>Table\<close> constructor keeps the table it is given.
\<close>

definition zip_longest :: "pyval list list \<Rightarrow> pyval list list" where
  "zip_longest cols =
     map (\<lambda>i. map (\<lambda>c. if i < length c then c ! i else PNone) cols)
       [0 ..< foldr max (map length cols) 0]"

definition fromcolumns :: "pyval list \<Rightarrow> string list \<Rightarrow> error + table" where
  "fromcolumns cols hdr =
     bind_err (map_err py_iter cols)
       (\<lambda>cs. Inr \<lparr>header = hdr, rows = zip_longest cs\<rparr>)"

subsection \<open>The connection\<close>

text \<open>
  The connection is the collaborator every method calls. Its class is not in the source
  file, so it is a parameter of the model: a base URI and an arbitrary answer to each
  call. A call records exactly the arguments the method passes: the URL and the keyword
  arguments \<open>req_type\<close>, \<open>post_data\<close> and \<open>raw\<close> of \<open>request\<close> (\<open>None\<close> when
  the method does not pass the keyword), or the URL and \<open>args\<close> of
  \<open>request_paginate\<close>.
\<close>

datatype conn_call =
    Request (url: string) (req_type: "string option") (post_data: "pyval option")
      (raw: "bool option")
  | RequestPaginate (url: string) (args: pyval)

record raw_response =
  status_code :: nat
  json :: "pyval option"

text \<open>
  What a call can answer: a table, a raw HTTP response (whose \<open>json()\<close> raises when the
  body does not decode, \<open>json = None\<close>), or a plain value.
\<close>

datatype pyobj =
    Tbl table
  | Response raw_response
  | Obj pyval

record van_connection =
  uri :: string
  respond :: "conn_call \<Rightarrow> error + pyobj"

text \<open>The attribute \<open>num_rows\<close> and the method \<open>json()\<close> of an answer.\<close>

fun num_rows :: "pyobj \<Rightarrow> error + nat" where
  "num_rows (Tbl t) = Inr (length (rows t))"
| "num_rows _ = Inl (AttributeError ''num_rows'')"

fun json_of :: "pyobj \<Rightarrow> error + pyval" where
  "json_of (Response r) = (case json r of None \<Rightarrow> Inl JSONDecodeError | Some v \<Rightarrow> Inr v)"
| "json_of _ = Inl (AttributeError ''json'')"

subsection \<open>The client\<close>

record Codes =
  connection :: van_connection

text \<open>
  The outcome of one method call: the calls made on the connection, in order; the value
  returned or the error raised; and the client object after the call.
\<close>

record run =
  issued :: "conn_call list"
  returned :: "error + pyobj"
  self_after :: Codes

text \<open>An error raised before the connection is called.\<close>

definition raise_local :: "Codes \<Rightarrow> error \<Rightarrow> run" where
  "raise_local self e = \<lparr>issued = [], returned = Inl e, self_after = self\<rparr>"

text \<open>One call on the connection, followed by the rest of the method on its answer.\<close>

definition call_then :: "Codes \<Rightarrow> conn_call \<Rightarrow> (pyobj \<Rightarrow> error + pyobj) \<Rightarrow> run" where
  "call_then self q k =
     \<lparr>issued = [q], returned = bind_err (respond (connection self) q) k, self_after = self\<rparr>"

subsection \<open>The supported entities of a code\<close>

text \<open>
  Both \<open>create_code\<close> and \<open>update_code\<close> rewrite the caller's list with the same
  comprehension:
  \<^verbatim>\<open>[{'name': s['name'], 'isSearchable': s['is_searchable'],
    'is_applicable': s['is_applicable']} for s in supported_entities]\<close>
  The three lookups run in this order, and a failing one ends the comprehension.
\<close>

definition se_element :: "pyval \<Rightarrow> error + pyval" where
  "se_element s =
     bind_err (subscript s ''name'') (\<lambda>n.
     bind_err (subscript s ''is_searchable'') (\<lambda>srch.
     bind_err (subscript s ''is_applicable'') (\<lambda>appl.
       Inr (PDict [(''name'', n), (''isSearchable'', srch), (''is_applicable'', appl)]))))"

definition se_comprehension :: "pyval \<Rightarrow> error + pyval" where
  "se_comprehension supported_entities =
     bind_err (py_iter supported_entities) (\<lambda>xs.
     bind_err (map_err se_element xs) (\<lambda>ys. Inr (PList ys)))"

subsection \<open>The methods\<close>

text \<open>
  A primed name is the parameter as bound in the body, after the default of the
  signature is applied. The code identifier is an integer, as the docstrings declare.
\<close>

definition get_codes ::
  "Codes \<Rightarrow> pyval option \<Rightarrow> pyval option \<Rightarrow> pyval option \<Rightarrow> pyval option \<Rightarrow> pyval option
     \<Rightarrow> run" where
  "get_codes self name supported_entities parent_code_id code_type page_size =
     (let name' = arg_or PNone name;
          supported_entities' = arg_or PNone supported_entities;
          parent_code_id' = arg_or PNone parent_code_id;
          code_type' = arg_or PNone code_type;
          page_size' = arg_or (PInt 200) page_size;
          args = PDict [(''name'', name'),
                        (''supportedEntities'', supported_entities'),
                        (''parentCodeId'', parent_code_id'),
                        (''codeType'', code_type'),
                        (''$top'', page_size')];
          url = uri (connection self) @ ''codes''
      in call_then self (RequestPaginate url args)
           (\<lambda>c. bind_err (num_rows c) (\<lambda>n. Inr c)))"

definition get_code :: "Codes \<Rightarrow> int \<Rightarrow> run" where
  "get_code self code_id =
     (let url = uri (connection self) @ ''codes/'' @ str_int code_id
      in call_then self (Request url None None None) Inr)"

definition get_code_types :: "Codes \<Rightarrow> run" where
  "get_code_types self =
     (let url = uri (connection self) @ ''codeTypes''
      in call_then self (Request url None None (Some True))
           (\<lambda>r. bind_err (json_of r) (\<lambda>j.
                bind_err (fromcolumns [j] [''code_type'']) (\<lambda>ct. Inr (Tbl ct)))))"

definition create_code ::
  "Codes \<Rightarrow> pyval option \<Rightarrow> pyval option \<Rightarrow> pyval option \<Rightarrow> pyval option \<Rightarrow> pyval option
     \<Rightarrow> run" where
  "create_code self name parent_code_id description code_type supported_entities =
     (let name' = arg_or PNone name;
          parent_code_id' = arg_or PNone parent_code_id;
          description' = arg_or PNone description;
          code_type' = arg_or (PStr ''SourceCode'') code_type;
          supported_entities' = arg_or PNone supported_entities;
          url = uri (connection self) @ ''codes''
      in if truthy supported_entities' then
           (case se_comprehension supported_entities' of
              Inl e \<Rightarrow> raise_local self e
            | Inr se \<Rightarrow>
                call_then self
                  (Request url (Some ''POST'')
                     (Some (PDict [(''parentCodeId'', parent_code_id'),
                                   (''name'', name'),
                                   (''codeType'', code_type'),
                                   (''supportedEntities'', se),
                                   (''description'', description')]))
                     None)
                  Inr)
         else raise_local self (UnboundLocalError ''se''))"

text \<open>
  In \<open>create_code\<close> the variable \<open>se\<close> is assigned only under
  \<open>if supported_entities:\<close>; the dictionary literal that follows reads it in every
  case, which raises \<open>UnboundLocalError\<close> when the branch was not taken.
\<close>

definition update_code ::
  "Codes \<Rightarrow> int \<Rightarrow> pyval option \<Rightarrow> pyval option \<Rightarrow> pyval option \<Rightarrow> pyval option
     \<Rightarrow> pyval option \<Rightarrow> run" where
  "update_code self code_id name parent_code_id description code_type supported_entities =
     (let name' = arg_or PNone name;
          parent_code_id' = arg_or PNone parent_code_id;
          description' = arg_or PNone description;
          code_type' = arg_or PNone code_type;
          supported_entities' = arg_or PNone supported_entities;
          url = uri (connection self) @ ''codes/'' @ str_int code_id;
          post_data0 = [];
          post_data1 = (if truthy name' then dict_set post_data0 ''name'' name'
                        else post_data0);
          post_data2 = (if truthy parent_code_id'
                        then dict_set post_data1 ''parentCodeId'' parent_code_id'
                        else post_data1);
          post_data3 = (if truthy code_type' then dict_set post_data2 ''codeType'' code_type'
                        else post_data2);
          post_data4 = (if truthy description'
                        then dict_set post_data3 ''description'' description'
                        else post_data3)
      in if truthy supported_entities' then
           (case se_comprehension supported_entities' of
              Inl e \<Rightarrow> raise_local self e
            | Inr se \<Rightarrow>
                call_then self
                  (Request url (Some ''PUT'')
                     (Some (PDict (dict_set post_data4 ''supportedEntities'' se))) None)
                  Inr)
         else call_then self (Request url (Some ''PUT'') (Some (PDict post_data4)) None) Inr)"

definition delete_code :: "Codes \<Rightarrow> int \<Rightarrow> run" where
  "delete_code self code_id =
     (let url = uri (connection self) @ ''codes/'' @ str_int code_id
      in call_then self (Request url (Some ''DELETE'') None (Some True)) Inr)"

definition get_code_supported_entities :: "Codes \<Rightarrow> run" where
  "get_code_supported_entities self =
     (let url = uri (connection self) @ ''codes/supportedEntities''
      in call_then self (Request url None None (Some True))
           (\<lambda>r. bind_err (json_of r) (\<lambda>j.
                bind_err (fromcolumns [j] [''supported_entities'']) (\<lambda>cse. Inr (Tbl cse)))))"

subsection \<open>A client for concrete evaluation\<close>

text \<open>A connection that gives the same answer to every call.\<close>

definition fixed_connection :: "error + pyobj \<Rightarrow> van_connection" where
  "fixed_connection answer = \<lparr>uri = ''https://api.securevan.com/v4/'', respond = (\<lambda>q. answer)\<rparr>"

definition fixed_client :: "error + pyobj \<Rightarrow> Codes" where
  "fixed_client answer = \<lparr>connection = fixed_connection answer\<rparr>"

section \<open>Properties\<close>

subsection \<open>Auxiliary facts\<close>

lemma zip_longest_single: "zip_longest [xs] = map (\<lambda>x. [x]) xs"
  by (rule nth_equalityI) (simp_all add: zip_longest_def)

lemma map_err_all_Inr:
  "\<forall>x\<in>set xs. f x = Inr (g x) \<Longrightarrow> map_err f xs = Inr (map g xs)"
  by (induction xs) simp_all

lemma map_err_Inl:
  "map_err f xs = Inl e \<Longrightarrow> \<exists>x\<in>set xs. f x = Inl e"
proof (induction xs)
  case Nil
  then show ?case by simp
next
  case (Cons x xs)
  show ?case
  proof (cases "f x")
    case (Inl a)
    with Cons.prems show ?thesis by simp
  next
    case (Inr y)
    with Cons.prems have "map_err f xs = Inl e"
      by (cases "map_err f xs") simp_all
    with Cons.IH show ?thesis by auto
  qed
qed

lemma map_err_Inr:
  "map_err f xs = Inr ys \<Longrightarrow> list_all2 (\<lambda>x y. f x = Inr y) xs ys"
proof (induction xs arbitrary: ys)
  case Nil
  then show ?case by simp
next
  case (Cons x xs)
  from Cons.prems obtain y where y: "f x = Inr y"
    by (cases "f x") simp_all
  with Cons.prems obtain zs where zs: "map_err f xs = Inr zs"
    by (cases "map_err f xs") simp_all
  with y Cons.prems have "ys = y # zs" by simp
  with y zs Cons.IH show ?case by simp
qed

lemma se_element_Inr:
  "se_element s = Inr y \<longleftrightarrow>
     (\<exists>n a b. subscript s ''name'' = Inr n \<and> subscript s ''is_searchable'' = Inr a \<and>
        subscript s ''is_applicable'' = Inr b \<and>
        y = PDict [(''name'', n), (''isSearchable'', a), (''is_applicable'', b)])"
  unfolding se_element_def
  by (cases "subscript s ''name''"; cases "subscript s ''is_searchable''";
      cases "subscript s ''is_applicable''") auto

lemma se_element_dict_Inl:
  "se_element (PDict d) = Inl e \<Longrightarrow>
     e \<in> {KeyError ''name'', KeyError ''is_searchable'', KeyError ''is_applicable''}"
  unfolding se_element_def
  by (auto split: option.splits)

text \<open>
  Assignment to a key: the key then holds the new value, the other keys keep theirs,
  and a key that was not there goes to the end.
\<close>

lemma map_of_dict_set: "map_of (dict_set d k v) k = Some v"
  by (induction d) auto

lemma map_of_dict_set_other: "k' \<noteq> k \<Longrightarrow> map_of (dict_set d k v) k' = map_of d k'"
  by (induction d) auto

lemma dict_set_fresh: "k \<notin> fst ` set d \<Longrightarrow> dict_set d k v = d @ [(k, v)]"
  by (induction d) auto

lemma bind_err_Inr: "bind_err x Inr = x"
  by (cases x) simp_all

text \<open>
  \<open>update_code\<close> in one piece: the four scalar fields that are truthy, in the order of
  the source, then the rewritten supported entities when that argument is truthy.
\<close>

lemma update_code_issued:
  "update_code self code_id name parent_code_id description code_type supported_entities =
     (let fields = filter (\<lambda>kv. truthy (snd kv))
                     [(''name'', arg_or PNone name),
                      (''parentCodeId'', arg_or PNone parent_code_id),
                      (''codeType'', arg_or PNone code_type),
                      (''description'', arg_or PNone description)];
          url = uri (connection self) @ ''codes/'' @ str_int code_id
      in if truthy (arg_or PNone supported_entities) then
           (case se_comprehension (arg_or PNone supported_entities) of
              Inl e \<Rightarrow> raise_local self e
            | Inr se \<Rightarrow>
                call_then self
                  (Request url (Some ''PUT'')
                     (Some (PDict (fields @ [(''supportedEntities'', se)]))) None) Inr)
         else call_then self (Request url (Some ''PUT'') (Some (PDict fields)) None) Inr)"
  by (simp add: update_code_def Let_def split: sum.splits)

subsection \<open>Creating a code without supported entities (C1)\<close>

text \<open>
  C1. The spec says that a call of \<open>create_code\<close> in which \<open>supported_entities\<close> is
  absent, \<open>None\<close> or empty still attempts the POST, with no local error before the call.
  The code does otherwise: for each of the three forms of a missing argument no call
  reaches the connection, and the method raises \<open>UnboundLocalError\<close> for the variable
  \<open>se\<close>, whatever the other arguments are.
\<close>

theorem create_code_unbound_se:
  "issued (create_code self name parent_code_id description code_type None) = []
   \<and> returned (create_code self name parent_code_id description code_type None)
       = Inl (UnboundLocalError ''se'')
   \<and> issued (create_code self name parent_code_id description code_type (Some PNone)) = []
   \<and> returned (create_code self name parent_code_id description code_type (Some PNone))
       = Inl (UnboundLocalError ''se'')
   \<and> issued (create_code self name parent_code_id description code_type (Some (PList []))) = []
   \<and> returned (create_code self name parent_code_id description code_type (Some (PList [])))
       = Inl (UnboundLocalError ''se'')"
  by (simp add: create_code_def raise_local_def)

subsection \<open>The query parameters of \<open>get_codes\<close> (C2)\<close>

text \<open>
  C2, as stated, says that a filter passed as \<open>None\<close> is not a key of the parameters
  handed to the connection. It fails: with every filter left out, the dictionary handed
  to \<open>request_paginate\<close> still has the four filter keys, each bound to \<open>None\<close>.
\<close>

theorem get_codes_null_filter_counterexample:
  "issued (get_codes (fixed_client (Inr (Tbl \<lparr>header = [], rows = []\<rparr>)))
      None None None None None) =
     [RequestPaginate ''https://api.securevan.com/v4/codes''
        (PDict [(''name'', PNone),
                (''supportedEntities'', PNone),
                (''parentCodeId'', PNone),
                (''codeType'', PNone),
                (''$top'', PInt 200)])]"
  by (simp add: get_codes_def call_then_def fixed_client_def fixed_connection_def Let_def)

text \<open>
  C2, amended. For every combination of the arguments, \<open>get_codes\<close> makes one call,
  \<open>request_paginate\<close> on the URL \<open>uri + 'codes'\<close>, and the parameter dictionary has
  exactly the five keys \<open>name\<close>, \<open>supportedEntities\<close>, \<open>parentCodeId\<close>, \<open>codeType\<close> and
  \<open>$top\<close>, each bound to the value passed: a filter that is left out or passed as
  \<open>None\<close> stays in the dictionary, bound to \<open>None\<close>, and \<open>$top\<close> is the page size, 200
  by default.
\<close>

theorem get_codes_args:
  "issued (get_codes self name supported_entities parent_code_id code_type page_size) =
     [RequestPaginate (uri (connection self) @ ''codes'')
        (PDict [(''name'', arg_or PNone name),
                (''supportedEntities'', arg_or PNone supported_entities),
                (''parentCodeId'', arg_or PNone parent_code_id),
                (''codeType'', arg_or PNone code_type),
                (''$top'', arg_or (PInt 200) page_size)])]"
  by (simp add: get_codes_def call_then_def Let_def)

subsection \<open>The body of \<open>update_code\<close> (C3)\<close>

text \<open>
  C3, as stated, says that the PUT body has a key for every field the caller supplies.
  It fails for a supplied value that is not truthy: a call that passes the empty string
  as the name sends an empty body.
\<close>

theorem update_code_empty_name_counterexample:
  "issued (update_code (fixed_client (Inl (HTTPError 404))) 5 (Some (PStr '''')) None None
       None None) =
     [Request ''https://api.securevan.com/v4/codes/5'' (Some ''PUT'') (Some (PDict [])) None]"
  by (simp add: update_code_issued call_then_def fixed_client_def fixed_connection_def Let_def
      str_int_def)

text \<open>
  C3, amended. Whenever \<open>update_code\<close> calls the connection, the call is a PUT on
  \<open>uri + 'codes/' + code_id\<close> whose body has exactly the keys of the fields whose bound
  value is truthy, in the order name, parentCodeId, codeType, description,
  supportedEntities, and no others; the scalar fields carry the values passed. A field
  that is left out, or passed as \<open>None\<close>, an empty string, zero, \<open>False\<close> or an empty
  list, is not in the body. A call that supplies only a truthy name sends exactly
  \<open>{'name': value}\<close>.
\<close>

theorem update_code_body_truthy_fields:
  "(issued (update_code self code_id name parent_code_id description code_type
        supported_entities) = [q] \<longrightarrow>
      (\<exists>body.
         q = Request (uri (connection self) @ ''codes/'' @ str_int code_id) (Some ''PUT'')
               (Some (PDict body)) None
         \<and> map fst body =
             map fst (filter (\<lambda>kv. truthy (snd kv))
               [(''name'', arg_or PNone name),
                (''parentCodeId'', arg_or PNone parent_code_id),
                (''codeType'', arg_or PNone code_type),
                (''description'', arg_or PNone description),
                (''supportedEntities'', arg_or PNone supported_entities)])
         \<and> filter (\<lambda>kv. fst kv \<noteq> ''supportedEntities'') body =
             filter (\<lambda>kv. truthy (snd kv))
               [(''name'', arg_or PNone name),
                (''parentCodeId'', arg_or PNone parent_code_id),
                (''codeType'', arg_or PNone code_type),
                (''description'', arg_or PNone description)]))
   \<and> (truthy v \<longrightarrow>
        issued (update_code self code_id (Some v) None None None None) =
          [Request (uri (connection self) @ ''codes/'' @ str_int code_id) (Some ''PUT'')
             (Some (PDict [(''name'', v)])) None])"
proof (intro conjI impI)
  assume "truthy v"
  then show "issued (update_code self code_id (Some v) None None None None) =
          [Request (uri (connection self) @ ''codes/'' @ str_int code_id) (Some ''PUT'')
             (Some (PDict [(''name'', v)])) None]"
    by (simp add: update_code_issued call_then_def Let_def)
next
  let ?se = "arg_or PNone supported_entities"
  let ?four = "filter (\<lambda>kv. truthy (snd kv))
               [(''name'', arg_or PNone name),
                (''parentCodeId'', arg_or PNone parent_code_id),
                (''codeType'', arg_or PNone code_type),
                (''description'', arg_or PNone description)]"
  have no_se: "filter (\<lambda>kv. fst kv \<noteq> ''supportedEntities'') ?four = ?four"
    by simp
  assume q: "issued (update_code self code_id name parent_code_id description code_type
        supported_entities) = [q]"
  show "\<exists>body.
         q = Request (uri (connection self) @ ''codes/'' @ str_int code_id) (Some ''PUT'')
               (Some (PDict body)) None
         \<and> map fst body =
             map fst (filter (\<lambda>kv. truthy (snd kv))
               [(''name'', arg_or PNone name),
                (''parentCodeId'', arg_or PNone parent_code_id),
                (''codeType'', arg_or PNone code_type),
                (''description'', arg_or PNone description),
                (''supportedEntities'', arg_or PNone supported_entities)])
         \<and> filter (\<lambda>kv. fst kv \<noteq> ''supportedEntities'') body = ?four"
  proof (cases "truthy ?se")
    case False
    with q have "q = Request (uri (connection self) @ ''codes/'' @ str_int code_id)
        (Some ''PUT'') (Some (PDict ?four)) None"
      by (simp add: update_code_issued call_then_def Let_def)
    with False no_se show ?thesis by simp
  next
    case True
    show ?thesis
    proof (cases "se_comprehension ?se")
      case (Inl e)
      with True q show ?thesis
        by (simp add: update_code_issued raise_local_def Let_def)
    next
      case (Inr se)
      with True q have "q = Request (uri (connection self) @ ''codes/'' @ str_int code_id)
          (Some ''PUT'') (Some (PDict (?four @ [(''supportedEntities'', se)]))) None"
        by (simp add: update_code_issued call_then_def Let_def)
      with True no_se show ?thesis by simp
    qed
  qed
qed

theorem update_code_body_truthy_fields_witness:
  "issued (update_code (fixed_client (Inl (HTTPError 404))) 5 (Some (PStr ''Volunteer''))
       None None (Some (PStr ''Tag'')) None) =
     [Request ''https://api.securevan.com/v4/codes/5'' (Some ''PUT'')
        (Some (PDict [(''name'', PStr ''Volunteer''), (''codeType'', PStr ''Tag'')])) None]
   \<and> truthy (PStr ''Volunteer'')
   \<and> issued (update_code (fixed_client (Inl (HTTPError 404))) 5 (Some (PStr ''Volunteer''))
       None None None None) =
     [Request ''https://api.securevan.com/v4/codes/5'' (Some ''PUT'')
        (Some (PDict [(''name'', PStr ''Volunteer'')])) None]"
  using update_code_body_truthy_fields
    [of "fixed_client (Inl (HTTPError 404))" 5 "Some (PStr ''Volunteer'')" None None
       "Some (PStr ''Tag'')" None
       "Request ''https://api.securevan.com/v4/codes/5'' (Some ''PUT'')
        (Some (PDict [(''name'', PStr ''Volunteer''), (''codeType'', PStr ''Tag'')])) None"
       "PStr ''Volunteer''"]
  by (simp add: update_code_issued call_then_def fixed_client_def fixed_connection_def Let_def
      str_int_def)

subsection \<open>The rewriting of supported entities (C4)\<close>

text \<open>\<open>create_code\<close> in one piece, with the parameters bound.\<close>

lemma create_code_issued:
  "create_code self name parent_code_id description code_type supported_entities =
     (if truthy (arg_or PNone supported_entities) then
        (case se_comprehension (arg_or PNone supported_entities) of
           Inl e \<Rightarrow> raise_local self e
         | Inr se \<Rightarrow>
             call_then self
               (Request (uri (connection self) @ ''codes'') (Some ''POST'')
                  (Some (PDict [(''parentCodeId'', arg_or PNone parent_code_id),
                                (''name'', arg_or PNone name),
                                (''codeType'', arg_or (PStr ''SourceCode'') code_type),
                                (''supportedEntities'', se),
                                (''description'', arg_or PNone description)]))
                  None)
               Inr)
      else raise_local self (UnboundLocalError ''se''))"
  by (simp add: create_code_def Let_def)

text \<open>
  When every element of the list answers the three lookups, the comprehension gives one
  dictionary per element, in order, with the keys \<open>name\<close>, \<open>isSearchable\<close> and
  \<open>is_applicable\<close>.
\<close>

lemma se_comprehension_list_ok:
  assumes "\<forall>s\<in>set xs. \<forall>k\<in>{''name'', ''is_searchable'', ''is_applicable''}. \<exists>v. subscript s k = Inr v"
  shows "se_comprehension (PList xs) =
     Inr (PList (map (\<lambda>s. PDict [(''name'', projr (subscript s ''name'')),
                                   (''isSearchable'', projr (subscript s ''is_searchable'')),
                                   (''is_applicable'', projr (subscript s ''is_applicable''))]) xs))"
proof -
  have "\<forall>s\<in>set xs. se_element s =
      Inr (PDict [(''name'', projr (subscript s ''name'')),
                  (''isSearchable'', projr (subscript s ''is_searchable'')),
                  (''is_applicable'', projr (subscript s ''is_applicable''))])"
  proof
    fix s assume "s \<in> set xs"
    with assms obtain n a b where "subscript s ''name'' = Inr n"
      "subscript s ''is_searchable'' = Inr a" "subscript s ''is_applicable'' = Inr b"
      by auto
    then show "se_element s =
      Inr (PDict [(''name'', projr (subscript s ''name'')),
                  (''isSearchable'', projr (subscript s ''is_searchable'')),
                  (''is_applicable'', projr (subscript s ''is_applicable''))])"
      by (simp add: se_element_Inr)
  qed
  then have "map_err se_element xs =
      Inr (map (\<lambda>s. PDict [(''name'', projr (subscript s ''name'')),
                  (''isSearchable'', projr (subscript s ''is_searchable'')),
                  (''is_applicable'', projr (subscript s ''is_applicable''))]) xs)"
    by (rule map_err_all_Inr)
  then show ?thesis by (simp add: se_comprehension_def)
qed

text \<open>
  C4. For every non-empty list of supported entities whose elements have the keys
  \<open>name\<close>, \<open>is_searchable\<close> and \<open>is_applicable\<close>, both \<open>create_code\<close> and \<open>update_code\<close>
  make one call whose body binds \<open>supportedEntities\<close> to the list of the rewritten
  elements: each is \<open>{name, isSearchable, is_applicable}\<close>, with the values the caller
  gave under \<open>name\<close>, \<open>is_searchable\<close> and \<open>is_applicable\<close>. The witness is the example of
  the spec, the entity \<open>Event\<close>.
\<close>

theorem supported_entities_rewritten:
  assumes "xs \<noteq> []"
    and "\<forall>s\<in>set xs. \<forall>k\<in>{''name'', ''is_searchable'', ''is_applicable''}.
           \<exists>v. subscript s k = Inr v"
  shows "issued (create_code self name parent_code_id description code_type
            (Some (PList xs))) =
          [Request (uri (connection self) @ ''codes'') (Some ''POST'')
             (Some (PDict
                [(''parentCodeId'', arg_or PNone parent_code_id),
                 (''name'', arg_or PNone name),
                 (''codeType'', arg_or (PStr ''SourceCode'') code_type),
                 (''supportedEntities'',
                    PList (map (\<lambda>s. PDict
                      [(''name'', projr (subscript s ''name'')),
                       (''isSearchable'', projr (subscript s ''is_searchable'')),
                       (''is_applicable'', projr (subscript s ''is_applicable''))]) xs)),
                 (''description'', arg_or PNone description)]))
             None]
       \<and> issued (update_code self code_id name parent_code_id description code_type
            (Some (PList xs))) =
          [Request (uri (connection self) @ ''codes/'' @ str_int code_id) (Some ''PUT'')
             (Some (PDict
                (filter (\<lambda>kv. truthy (snd kv))
                   [(''name'', arg_or PNone name),
                    (''parentCodeId'', arg_or PNone parent_code_id),
                    (''codeType'', arg_or PNone code_type),
                    (''description'', arg_or PNone description)]
                 @ [(''supportedEntities'',
                    PList (map (\<lambda>s. PDict
                      [(''name'', projr (subscript s ''name'')),
                       (''isSearchable'', projr (subscript s ''is_searchable'')),
                       (''is_applicable'', projr (subscript s ''is_applicable''))]) xs))])))
             None]"
  using assms(1) se_comprehension_list_ok [OF assms(2)]
  by (simp add: create_code_issued update_code_issued call_then_def Let_def)

theorem supported_entities_rewritten_witness:
  "issued (create_code (fixed_client (Inl (HTTPError 400))) (Some (PStr ''Volunteer'')) None
       None None
       (Some (PList [PDict [(''name'', PStr ''Event''), (''is_searchable'', PBool True),
                            (''is_applicable'', PBool True)]]))) =
     [Request ''https://api.securevan.com/v4/codes'' (Some ''POST'')
        (Some (PDict
           [(''parentCodeId'', PNone),
            (''name'', PStr ''Volunteer''),
            (''codeType'', PStr ''SourceCode''),
            (''supportedEntities'',
               PList [PDict [(''name'', PStr ''Event''), (''isSearchable'', PBool True),
                             (''is_applicable'', PBool True)]]),
            (''description'', PNone)]))
        None]
   \<and> issued (update_code (fixed_client (Inl (HTTPError 400))) 7 (Some (PStr ''Volunteer''))
       None None None
       (Some (PList [PDict [(''name'', PStr ''Event''), (''is_searchable'', PBool True),
                            (''is_applicable'', PBool True)]]))) =
     [Request ''https://api.securevan.com/v4/codes/7'' (Some ''PUT'')
        (Some (PDict
           [(''name'', PStr ''Volunteer''),
            (''supportedEntities'',
               PList [PDict [(''name'', PStr ''Event''), (''isSearchable'', PBool True),
                             (''is_applicable'', PBool True)]])]))
        None]"
  using supported_entities_rewritten
    [of "[PDict [(''name'', PStr ''Event''), (''is_searchable'', PBool True),
                 (''is_applicable'', PBool True)]]"
        "fixed_client (Inl (HTTPError 400))" "Some (PStr ''Volunteer'')" None None None
        7]
  by (simp add: fixed_client_def fixed_connection_def str_int_def)

subsection \<open>The metadata tables (C5)\<close>

lemma fromcolumns_single:
  "fromcolumns [PList xs] hdr = Inr \<lparr>header = hdr, rows = map (\<lambda>x. [x]) xs\<rparr>"
  by (simp add: fromcolumns_def zip_longest_single)

text \<open>
  C5. When the connection answers the raw GET on \<open>uri + 'codeTypes'\<close> with a response
  whose JSON body is an array, \<open>get_code_types\<close> returns a table with the single column
  \<open>code_type\<close> and one one-cell row per element of the array, in order; the same holds
  for \<open>get_code_supported_entities\<close>, on \<open>uri + 'codes/supportedEntities'\<close>, with the
  column \<open>supported_entities\<close>.
\<close>

theorem metadata_single_column_tables:
  "(respond (connection self)
        (Request (uri (connection self) @ ''codeTypes'') None None (Some True))
      = Inr (Response r) \<and> json r = Some (PList xs) \<longrightarrow>
      returned (get_code_types self) =
        Inr (Tbl \<lparr>header = [''code_type''], rows = map (\<lambda>x. [x]) xs\<rparr>))
   \<and> (respond (connection self)
        (Request (uri (connection self) @ ''codes/supportedEntities'') None None (Some True))
      = Inr (Response r) \<and> json r = Some (PList xs) \<longrightarrow>
      returned (get_code_supported_entities self) =
        Inr (Tbl \<lparr>header = [''supported_entities''], rows = map (\<lambda>x. [x]) xs\<rparr>))"
  by (simp add: get_code_types_def get_code_supported_entities_def call_then_def Let_def
      fromcolumns_single)

theorem metadata_single_column_tables_witness:
  "returned (get_code_types
      (fixed_client (Inr (Response \<lparr>status_code = 200,
         json = Some (PList [PStr ''SourceCode'', PStr ''Tag''])\<rparr>)))) =
     Inr (Tbl \<lparr>header = [''code_type''], rows = [[PStr ''SourceCode''], [PStr ''Tag'']]\<rparr>)
   \<and> returned (get_code_supported_entities
      (fixed_client (Inr (Response \<lparr>status_code = 200,
         json = Some (PList [PStr ''SourceCode'', PStr ''Tag''])\<rparr>)))) =
     Inr (Tbl \<lparr>header = [''supported_entities''],
               rows = [[PStr ''SourceCode''], [PStr ''Tag'']]\<rparr>)"
  using metadata_single_column_tables
    [of "fixed_client (Inr (Response \<lparr>status_code = 200,
         json = Some (PList [PStr ''SourceCode'', PStr ''Tag''])\<rparr>))"
        "\<lparr>status_code = 200, json = Some (PList [PStr ''SourceCode'', PStr ''Tag''])\<rparr>"
        "[PStr ''SourceCode'', PStr ''Tag'']"]
  by (simp add: fixed_client_def fixed_connection_def)

subsection \<open>Errors of \<open>get_code\<close> (C6)\<close>

text \<open>
  C6. \<open>get_code\<close> makes one call, a plain \<open>request\<close> on \<open>uri + 'codes/' + code_id\<close>, and
  returns or raises exactly what the connection does. In particular an error of the
  connection, such as the one for an identifier that does not exist, reaches the caller
  unchanged.
\<close>

theorem get_code_error_unchanged:
  "issued (get_code self code_id) =
     [Request (uri (connection self) @ ''codes/'' @ str_int code_id) None None None]
   \<and> returned (get_code self code_id) =
     respond (connection self)
       (Request (uri (connection self) @ ''codes/'' @ str_int code_id) None None None)
   \<and> (respond (connection self)
        (Request (uri (connection self) @ ''codes/'' @ str_int code_id) None None None)
       = Inl e \<longrightarrow> returned (get_code self code_id) = Inl e)"
  by (simp add: get_code_def call_then_def Let_def bind_err_Inr)

theorem get_code_error_unchanged_witness:
  "respond (connection (fixed_client (Inl (HTTPError 404))))
     (Request ''https://api.securevan.com/v4/codes/999'' None None None) = Inl (HTTPError 404)
   \<and> returned (get_code (fixed_client (Inl (HTTPError 404))) 999) = Inl (HTTPError 404)"
  using get_code_error_unchanged [of "fixed_client (Inl (HTTPError 404))" 999 "HTTPError 404"]
  by (simp add: fixed_client_def fixed_connection_def str_int_def)

subsection \<open>Deleting a code (C7)\<close>

text \<open>
  C7. \<open>delete_code\<close> makes one call, a raw \<open>DELETE\<close> request on
  \<open>uri + 'codes/' + code_id\<close>, and returns what the connection answers: when that is a
  response with status 204, the value returned is this response.
\<close>

theorem delete_code_request:
  "issued (delete_code self code_id) =
     [Request (uri (connection self) @ ''codes/'' @ str_int code_id) (Some ''DELETE'') None
        (Some True)]
   \<and> returned (delete_code self code_id) =
     respond (connection self)
       (Request (uri (connection self) @ ''codes/'' @ str_int code_id) (Some ''DELETE'') None
          (Some True))
   \<and> (respond (connection self)
        (Request (uri (connection self) @ ''codes/'' @ str_int code_id) (Some ''DELETE'') None
           (Some True)) = Inr (Response r) \<and> status_code r = 204 \<longrightarrow>
       returned (delete_code self code_id) = Inr (Response r))"
  by (simp add: delete_code_def call_then_def Let_def bind_err_Inr)

theorem delete_code_request_witness:
  "issued (delete_code (fixed_client (Inr (Response \<lparr>status_code = 204, json = None\<rparr>))) 42) =
     [Request ''https://api.securevan.com/v4/codes/42'' (Some ''DELETE'') None (Some True)]
   \<and> returned (delete_code (fixed_client (Inr (Response \<lparr>status_code = 204, json = None\<rparr>))) 42)
      = Inr (Response \<lparr>status_code = 204, json = None\<rparr>)"
  using delete_code_request
    [of "fixed_client (Inr (Response \<lparr>status_code = 204, json = None\<rparr>))" 42
        "\<lparr>status_code = 204, json = None\<rparr>"]
  by (simp add: fixed_client_def fixed_connection_def str_int_def)

subsection \<open>The default code type (C8)\<close>

text \<open>
  C8. The spec says that every call of \<open>create_code\<close> that leaves \<open>code_type\<close> out
  sends a POST body with \<open>codeType\<close> bound to \<open>SourceCode\<close>. The plain call
  \<open>create_code(name='Volunteer')\<close> leaves \<open>code_type\<close> out, and the code sends nothing
  for it: no call reaches the connection and the method raises \<open>UnboundLocalError\<close> for
  \<open>se\<close>, so there is no body to carry the default. The default itself is bound as the
  spec says: the same call with a list of supported entities sends \<open>codeType\<close> as
  \<open>SourceCode\<close>.
\<close>

theorem create_code_default_code_type_no_request:
  "issued (create_code (fixed_client (Inl NetworkError)) (Some (PStr ''Volunteer'')) None None
       None None) = []
   \<and> returned (create_code (fixed_client (Inl NetworkError)) (Some (PStr ''Volunteer'')) None
       None None None) = Inl (UnboundLocalError ''se'')
   \<and> issued (create_code (fixed_client (Inl NetworkError)) (Some (PStr ''Volunteer'')) None None
       None
       (Some (PList [PDict [(''name'', PStr ''Contacts''), (''is_searchable'', PBool True),
                            (''is_applicable'', PBool False)]]))) =
     [Request ''https://api.securevan.com/v4/codes'' (Some ''POST'')
        (Some (PDict
           [(''parentCodeId'', PNone),
            (''name'', PStr ''Volunteer''),
            (''codeType'', PStr ''SourceCode''),
            (''supportedEntities'',
               PList [PDict [(''name'', PStr ''Contacts''), (''isSearchable'', PBool True),
                             (''is_applicable'', PBool False)]]),
            (''description'', PNone)]))
        None]"
  by (simp add: create_code_issued call_then_def raise_local_def se_comprehension_def
      se_element_def fixed_client_def fixed_connection_def)

subsection \<open>The client object (C9)\<close>

text \<open>
  C9. No method assigns to \<open>self\<close>: after each of the seven methods the client object,
  whose only field is the connection, is the one the method was called on, whatever the
  arguments and whatever the connection answers.
\<close>

theorem client_state_unchanged:
  "self_after (get_codes self name supported_entities parent_code_id code_type page_size) = self
   \<and> self_after (get_code self code_id) = self
   \<and> self_after (get_code_types self) = self
   \<and> self_after (create_code self name parent_code_id description code_type
        supported_entities) = self
   \<and> self_after (update_code self code_id name parent_code_id description code_type
        supported_entities) = self
   \<and> self_after (delete_code self code_id) = self
   \<and> self_after (get_code_supported_entities self) = self"
  by (simp add: get_codes_def get_code_def get_code_types_def create_code_issued
      update_code_issued delete_code_def get_code_supported_entities_def call_then_def
      raise_local_def Let_def split: sum.splits)

subsection \<open>The keys a supported entity must have (C10)\<close>

text \<open>What a successful comprehension says about its input and about its result.\<close>

lemma map_err_Inr_all:
  "map_err f xs = Inr ys \<Longrightarrow> \<forall>x\<in>set xs. \<exists>y. f x = Inr y"
  by (drule map_err_Inr) (auto simp: list_all2_conv_all_nth in_set_conv_nth)

lemma map_err_Inr_image:
  "map_err f xs = Inr ys \<Longrightarrow> \<forall>y\<in>set ys. \<exists>x\<in>set xs. f x = Inr y"
proof -
  assume "map_err f xs = Inr ys"
  then have "list_all2 (\<lambda>x y. f x = Inr y) xs ys"
    by (rule map_err_Inr)
  then show ?thesis
    by (induction rule: list_all2_induct) auto
qed

lemma se_comprehension_list_Inr:
  assumes "se_comprehension (PList xs) = Inr w"
  shows "\<forall>s\<in>set xs. \<forall>k\<in>{''name'', ''is_searchable'', ''is_applicable''}.
           \<exists>v. subscript s k = Inr v"
proof -
  from assms obtain ys where "map_err se_element xs = Inr ys"
    by (cases "map_err se_element xs") (simp_all add: se_comprehension_def)
  then have "\<forall>s\<in>set xs. \<exists>y. se_element s = Inr y"
    by (rule map_err_Inr_all)
  then show ?thesis
    by (auto simp: se_element_Inr)
qed

lemma se_comprehension_shape:
  assumes "se_comprehension v = Inr w"
  shows "\<exists>ys. w = PList ys \<and>
     (\<forall>y\<in>set ys. \<exists>e. y = PDict e \<and> map fst e = [''name'', ''isSearchable'', ''is_applicable''])"
proof -
  from assms obtain xs where xs: "py_iter v = Inr xs"
    by (cases "py_iter v") (simp_all add: se_comprehension_def)
  with assms obtain ys where ys: "map_err se_element xs = Inr ys"
    by (cases "map_err se_element xs") (simp_all add: se_comprehension_def)
  with xs assms have w: "w = PList ys"
    by (simp add: se_comprehension_def)
  from ys have "\<forall>y\<in>set ys. \<exists>x\<in>set xs. se_element x = Inr y"
    by (rule map_err_Inr_image)
  then have "\<forall>y\<in>set ys. \<exists>e. y = PDict e \<and> map fst e = [''name'', ''isSearchable'', ''is_applicable'']"
    by (auto simp: se_element_Inr)
  with w show ?thesis by simp
qed

text \<open>
  A list of dictionaries one of which lacks a required key: the comprehension stops at
  the first missing key, with a \<open>KeyError\<close> for it.
\<close>

lemma se_comprehension_missing_key:
  assumes dicts: "\<forall>s\<in>set xs. \<exists>d. s = PDict d"
    and lacking: "\<exists>s\<in>set xs. \<exists>k\<in>{''name'', ''is_searchable'', ''is_applicable''}.
                    subscript s k = Inl (KeyError k)"
  shows "\<exists>k\<in>{''name'', ''is_searchable'', ''is_applicable''}.
           se_comprehension (PList xs) = Inl (KeyError k)"
proof (cases "map_err se_element xs")
  case (Inr ys)
  then have "\<forall>s\<in>set xs. \<exists>y. se_element s = Inr y"
    by (rule map_err_Inr_all)
  with lacking show ?thesis
    by (auto simp: se_element_Inr)
next
  case (Inl e)
  then obtain s where s: "s \<in> set xs" "se_element s = Inl e"
    by (auto dest: map_err_Inl)
  with dicts obtain d where "s = PDict d" by auto
  with s have "e \<in> {KeyError ''name'', KeyError ''is_searchable'', KeyError ''is_applicable''}"
    by (auto dest: se_element_dict_Inl)
  with Inl show ?thesis
    by (auto simp: se_comprehension_def)
qed

lemma update_fields_no_se:
  "map_of (filter (\<lambda>kv. truthy (snd kv))
             [(''name'', a), (''parentCodeId'', b), (''codeType'', c), (''description'', d)])
     ''supportedEntities'' = None"
  by simp

text \<open>
  C10. For a non-empty list of supported entities passed to \<open>create_code\<close> or
  \<open>update_code\<close>: a request goes out only if every element has the keys \<open>name\<close>,
  \<open>is_searchable\<close> and \<open>is_applicable\<close>; when the elements are dictionaries and one of
  them lacks one of these keys (as an element with only a name and a
  \<open>start_time\<close>/\<open>end_time\<close> window does), both methods raise \<open>KeyError\<close> for a required
  key and no call reaches the connection. And in every request that either method sends,
  for any arguments, each element under \<open>supportedEntities\<close> has exactly the keys
  \<open>name\<close>, \<open>isSearchable\<close> and \<open>is_applicable\<close>, so no \<open>start_time\<close> or \<open>end_time\<close>
  entry is sent.
\<close>

theorem supported_entities_required_keys:
  "(xs \<noteq> [] \<and> issued (create_code self name parent_code_id description code_type
                       (Some (PList xs))) \<noteq> []
      \<longrightarrow> (\<forall>s\<in>set xs. \<forall>k\<in>{''name'', ''is_searchable'', ''is_applicable''}.
             \<exists>v. subscript s k = Inr v))
   \<and> (xs \<noteq> [] \<and> issued (update_code self code_id name parent_code_id description code_type
                       (Some (PList xs))) \<noteq> []
      \<longrightarrow> (\<forall>s\<in>set xs. \<forall>k\<in>{''name'', ''is_searchable'', ''is_applicable''}.
             \<exists>v. subscript s k = Inr v))
   \<and> (xs \<noteq> [] \<and> (\<forall>s\<in>set xs. \<exists>d. s = PDict d)
        \<and> (\<exists>s\<in>set xs. \<exists>k\<in>{''name'', ''is_searchable'', ''is_applicable''}.
              subscript s k = Inl (KeyError k))
      \<longrightarrow> (\<exists>k\<in>{''name'', ''is_searchable'', ''is_applicable''}.
             issued (create_code self name parent_code_id description code_type
               (Some (PList xs))) = []
             \<and> returned (create_code self name parent_code_id description code_type
               (Some (PList xs))) = Inl (KeyError k)
             \<and> issued (update_code self code_id name parent_code_id description code_type
               (Some (PList xs))) = []
             \<and> returned (update_code self code_id name parent_code_id description code_type
               (Some (PList xs))) = Inl (KeyError k)))
   \<and> (\<forall>q\<in>set (issued (create_code self name parent_code_id description code_type
                   supported_entities)
                @ issued (update_code self code_id name parent_code_id description code_type
                   supported_entities)).
        \<forall>body w. post_data q = Some (PDict body)
            \<and> map_of body ''supportedEntities'' = Some w \<longrightarrow>
          (\<exists>ys. w = PList ys \<and>
             (\<forall>y\<in>set ys. \<exists>e. y = PDict e
                \<and> map fst e = [''name'', ''isSearchable'', ''is_applicable''])))"
proof (intro conjI impI)
  assume "xs \<noteq> [] \<and> issued (create_code self name parent_code_id description code_type
                       (Some (PList xs))) \<noteq> []"
  then have "xs \<noteq> []" and "issued (create_code self name parent_code_id description
      code_type (Some (PList xs))) \<noteq> []"
    by simp_all
  then obtain w where "se_comprehension (PList xs) = Inr w"
    by (cases "se_comprehension (PList xs)")
       (simp_all add: create_code_issued raise_local_def)
  then show "\<forall>s\<in>set xs. \<forall>k\<in>{''name'', ''is_searchable'', ''is_applicable''}.
             \<exists>v. subscript s k = Inr v"
    by (rule se_comprehension_list_Inr)
next
  assume "xs \<noteq> [] \<and> issued (update_code self code_id name parent_code_id description
                       code_type (Some (PList xs))) \<noteq> []"
  then have "xs \<noteq> []" and "issued (update_code self code_id name parent_code_id
      description code_type (Some (PList xs))) \<noteq> []"
    by simp_all
  then obtain w where "se_comprehension (PList xs) = Inr w"
    by (cases "se_comprehension (PList xs)")
       (simp_all add: update_code_issued raise_local_def Let_def)
  then show "\<forall>s\<in>set xs. \<forall>k\<in>{''name'', ''is_searchable'', ''is_applicable''}.
             \<exists>v. subscript s k = Inr v"
    by (rule se_comprehension_list_Inr)
next
  assume a: "xs \<noteq> [] \<and> (\<forall>s\<in>set xs. \<exists>d. s = PDict d)
        \<and> (\<exists>s\<in>set xs. \<exists>k\<in>{''name'', ''is_searchable'', ''is_applicable''}.
              subscript s k = Inl (KeyError k))"
  then obtain k where k: "k \<in> {''name'', ''is_searchable'', ''is_applicable''}"
      "se_comprehension (PList xs) = Inl (KeyError k)"
    using se_comprehension_missing_key [of xs] by blast
  from a have "truthy (PList xs)" by simp
  with k(2) have "issued (create_code self name parent_code_id description code_type
               (Some (PList xs))) = []
             \<and> returned (create_code self name parent_code_id description code_type
               (Some (PList xs))) = Inl (KeyError k)
             \<and> issued (update_code self code_id name parent_code_id description code_type
               (Some (PList xs))) = []
             \<and> returned (update_code self code_id name parent_code_id description code_type
               (Some (PList xs))) = Inl (KeyError k)"
    by (simp add: create_code_issued update_code_issued raise_local_def Let_def)
  with k(1) show "\<exists>k\<in>{''name'', ''is_searchable'', ''is_applicable''}.
             issued (create_code self name parent_code_id description code_type
               (Some (PList xs))) = []
             \<and> returned (create_code self name parent_code_id description code_type
               (Some (PList xs))) = Inl (KeyError k)
             \<and> issued (update_code self code_id name parent_code_id description code_type
               (Some (PList xs))) = []
             \<and> returned (update_code self code_id name parent_code_id description code_type
               (Some (PList xs))) = Inl (KeyError k)"
    by blast
next
  let ?se = "arg_or PNone supported_entities"
  show "\<forall>q\<in>set (issued (create_code self name parent_code_id description code_type
                   supported_entities)
                @ issued (update_code self code_id name parent_code_id description code_type
                   supported_entities)).
        \<forall>body w. post_data q = Some (PDict body)
            \<and> map_of body ''supportedEntities'' = Some w \<longrightarrow>
          (\<exists>ys. w = PList ys \<and>
             (\<forall>y\<in>set ys. \<exists>e. y = PDict e
                \<and> map fst e = [''name'', ''isSearchable'', ''is_applicable'']))"
  proof (cases "truthy ?se")
    case False
    then show ?thesis
      using update_fields_no_se
      by (simp add: create_code_issued update_code_issued raise_local_def call_then_def
          Let_def del: filter.simps)
  next
    case True
    show ?thesis
    proof (cases "se_comprehension ?se")
      case (Inl e)
      with True show ?thesis
        by (simp add: create_code_issued update_code_issued raise_local_def Let_def)
    next
      case (Inr se)
      from se_comprehension_shape [OF Inr] True Inr update_fields_no_se show ?thesis
        by (simp add: create_code_issued update_code_issued call_then_def Let_def
            map_add_def del: filter.simps)
    qed
  qed
qed

theorem supported_entities_required_keys_witness:
  "issued (create_code (fixed_client (Inl NetworkError)) (Some (PStr ''Volunteer'')) None None
       None
       (Some (PList
          [PDict [(''name'', PStr ''Event''), (''is_searchable'', PBool True),
                  (''is_applicable'', PBool True)],
           PDict [(''name'', PStr ''Locations''),
                  (''start_time'', PStr ''12-31-2018T13:00:00''),
                  (''end_time'', PStr ''12-31-2018T14:00:00'')]]))) = []
   \<and> returned (create_code (fixed_client (Inl NetworkError)) (Some (PStr ''Volunteer'')) None
       None None
       (Some (PList
          [PDict [(''name'', PStr ''Event''), (''is_searchable'', PBool True),
                  (''is_applicable'', PBool True)],
           PDict [(''name'', PStr ''Locations''),
                  (''start_time'', PStr ''12-31-2018T13:00:00''),
                  (''end_time'', PStr ''12-31-2018T14:00:00'')]]))) =
       Inl (KeyError ''is_searchable'')
   \<and> issued (update_code (fixed_client (Inl NetworkError)) 3 (Some (PStr ''Volunteer'')) None
       None None
       (Some (PList
          [PDict [(''name'', PStr ''Event''), (''is_searchable'', PBool True),
                  (''is_applicable'', PBool True)],
           PDict [(''name'', PStr ''Locations''),
                  (''start_time'', PStr ''12-31-2018T13:00:00''),
                  (''end_time'', PStr ''12-31-2018T14:00:00'')]]))) = []
   \<and> returned (update_code (fixed_client (Inl NetworkError)) 3 (Some (PStr ''Volunteer''))
       None None None
       (Some (PList
          [PDict [(''name'', PStr ''Event''), (''is_searchable'', PBool True),
                  (''is_applicable'', PBool True)],
           PDict [(''name'', PStr ''Locations''),
                  (''start_time'', PStr ''12-31-2018T13:00:00''),
                  (''end_time'', PStr ''12-31-2018T14:00:00'')]]))) =
       Inl (KeyError ''is_searchable'')
   \<and> issued (create_code (fixed_client (Inl NetworkError)) (Some (PStr ''Volunteer'')) None None
       None
       (Some (PList
          [PDict [(''name'', PStr ''Event''), (''is_searchable'', PBool True),
                  (''is_applicable'', PBool True),
                  (''start_time'', PStr ''12-31-2018T13:00:00'')]]))) =
       [Request ''https://api.securevan.com/v4/codes'' (Some ''POST'')
          (Some (PDict
             [(''parentCodeId'', PNone),
              (''name'', PStr ''Volunteer''),
              (''codeType'', PStr ''SourceCode''),
              (''supportedEntities'',
                 PList [PDict [(''name'', PStr ''Event''), (''isSearchable'', PBool True),
                               (''is_applicable'', PBool True)]]),
              (''description'', PNone)]))
          None]
   \<and> issued (update_code (fixed_client (Inl NetworkError)) 3 (Some (PStr ''Volunteer'')) None
       None None
       (Some (PList
          [PDict [(''name'', PStr ''Event''), (''is_searchable'', PBool True),
                  (''is_applicable'', PBool True),
                  (''start_time'', PStr ''12-31-2018T13:00:00'')]]))) =
       [Request ''https://api.securevan.com/v4/codes/3'' (Some ''PUT'')
          (Some (PDict
             [(''name'', PStr ''Volunteer''),
              (''supportedEntities'',
                 PList [PDict [(''name'', PStr ''Event''), (''isSearchable'', PBool True),
                               (''is_applicable'', PBool True)]])]))
          None]"
  using supported_entities_required_keys
    [where xs = "[PDict [(''name'', PStr ''Event''), (''is_searchable'', PBool True),
                  (''is_applicable'', PBool True),
                  (''start_time'', PStr ''12-31-2018T13:00:00'')]]"
       and self = "fixed_client (Inl NetworkError)" and name = "Some (PStr ''Volunteer'')"
       and parent_code_id = None and description = None and code_type = None
       and code_id = 3
       and supported_entities = "Some (PList
          [PDict [(''name'', PStr ''Event''), (''is_searchable'', PBool True),
                  (''is_applicable'', PBool True),
                  (''start_time'', PStr ''12-31-2018T13:00:00'')]])"]
    supported_entities_required_keys
    [where xs = "[PDict [(''name'', PStr ''Event''), (''is_searchable'', PBool True),
                  (''is_applicable'', PBool True)],
           PDict [(''name'', PStr ''Locations''),
                  (''start_time'', PStr ''12-31-2018T13:00:00''),
                  (''end_time'', PStr ''12-31-2018T14:00:00'')]]"
       and self = "fixed_client (Inl NetworkError)" and name = "Some (PStr ''Volunteer'')"
       and parent_code_id = None and description = None and code_type = None
       and code_id = 3
       and supported_entities = "Some (PList
          [PDict [(''name'', PStr ''Event''), (''is_searchable'', PBool True),
                  (''is_applicable'', PBool True),
                  (''start_time'', PStr ''12-31-2018T13:00:00'')]])"]
  by (simp add: create_code_issued update_code_issued call_then_def raise_local_def Let_def
      se_comprehension_def se_element_def fixed_client_def fixed_connection_def str_int_def)

end
